theory Spec2Isabelle
  imports Complex_Main "HOL-Library.Word"
begin

section \<open>The algo core of opentrade (algo.h)\<close>

text \<open>
  The header declares the parameter model (\<open>SecurityTuple\<close>, \<open>ParamDef\<close>), the abstract
  strategy class \<open>Algo\<close>, the subscription handle \<open>Instrument\<close>, the per-thread
  \<open>AlgoRunner\<close> and the singleton \<open>AlgoManager\<close>. Types that other headers declare and
  that the header holds by value or by reference (\<open>DataSrc\<close>, \<open>Security\<close>,
  \<open>OrderSide\<close>, \<open>MarketData\<close>) are type parameters here; \<open>'src\<close> and \<open>'sec\<close> stand
  for a data source and a security as far as the manager tells them apart, that is, for
  their ids. The type of a quantity is the type parameter \<open>'q\<close>: each accessor is written
  with the operations the code applies to it. The code's own quantity type, the C++
  \<open>double\<close>, is the type \<open>double\<close> below, with the arithmetic of IEEE 754 binary64.
  A pointer is an \<open>option\<close>, \<open>None\<close> being \<open>nullptr\<close>: of an address (a \<open>nat\<close>), or of
  the object pointed to where the code reads it.
\<close>

subsection \<open>Parameter values\<close>

text \<open>
  \<open>struct SecurityTuple { DataSrc src; const Security* sec = nullptr;
  const SubAccount* acc = nullptr; OrderSide side = kBuy; double qty = 0; }\<close>
\<close>

record ('src, 'side, 'q) SecurityTuple =
  src :: 'src
  sec :: "nat option"
  acc :: "nat option"
  side :: 'side
  qty :: 'q

text \<open>
  \<open>ParamDef::ValueScalar\<close> is \<open>std::variant<std::string, const char*, bool, int64_t,
  int32_t, double, SecurityTuple>\<close>; \<open>ParamDef::Value\<close> is the same list of alternatives
  followed by \<open>ValueVector = std::vector<ValueScalar>\<close>. The constructors below are in the
  order of the template arguments, so that \<open>index\<close> is \<open>std::variant::index()\<close>.
\<close>

datatype ('src, 'side, 'q) ValueScalar =
    ScalarString string
  | ScalarCString "string option"
  | ScalarBool bool
  | ScalarInt64 "64 word"
  | ScalarInt32 "32 word"
  | ScalarDouble 'q
  | ScalarSecurityTuple "('src, 'side, 'q) SecurityTuple"

datatype ('src, 'side, 'q) Value =
    ValueString string
  | ValueCString "string option"
  | ValueBool bool
  | ValueInt64 "64 word"
  | ValueInt32 "32 word"
  | ValueDouble 'q
  | ValueSecurityTuple "('src, 'side, 'q) SecurityTuple"
  | ValueVector "('src, 'side, 'q) ValueScalar list"

text \<open>The alternatives a value can hold, named by their C++ types.\<close>

datatype Alternative =
    std_string | const_char_ptr | bool_t | int64_t | int32_t | double_t
  | SecurityTuple_t | ValueVector_t

fun scalar_index :: "('src, 'side, 'q) ValueScalar \<Rightarrow> nat" where
  "scalar_index (ScalarString _) = 0"
| "scalar_index (ScalarCString _) = 1"
| "scalar_index (ScalarBool _) = 2"
| "scalar_index (ScalarInt64 _) = 3"
| "scalar_index (ScalarInt32 _) = 4"
| "scalar_index (ScalarDouble _) = 5"
| "scalar_index (ScalarSecurityTuple _) = 6"

fun index :: "('src, 'side, 'q) Value \<Rightarrow> nat" where
  "index (ValueString _) = 0"
| "index (ValueCString _) = 1"
| "index (ValueBool _) = 2"
| "index (ValueInt64 _) = 3"
| "index (ValueInt32 _) = 4"
| "index (ValueDouble _) = 5"
| "index (ValueSecurityTuple _) = 6"
| "index (ValueVector _) = 7"

text \<open>The template argument list of \<open>ParamDef::Value\<close>, in declaration order.\<close>

definition Value_alternatives :: "Alternative list" where
  "Value_alternatives =
     [std_string, const_char_ptr, bool_t, int64_t, int32_t, double_t, SecurityTuple_t,
      ValueVector_t]"

definition ValueScalar_alternatives :: "Alternative list" where
  "ValueScalar_alternatives =
     [std_string, const_char_ptr, bool_t, int64_t, int32_t, double_t, SecurityTuple_t]"

text \<open>\<open>std::holds_alternative<T>(v)\<close>: the value's index is the position of \<open>T\<close>.\<close>

definition holds_alternative :: "Alternative \<Rightarrow> ('src, 'side, 'q) Value \<Rightarrow> bool" where
  "holds_alternative t v =
     (index v < length Value_alternatives \<and> Value_alternatives ! index v = t)"

definition scalar_holds_alternative ::
  "Alternative \<Rightarrow> ('src, 'side, 'q) ValueScalar \<Rightarrow> bool" where
  "scalar_holds_alternative t v =
     (scalar_index v < length ValueScalar_alternatives \<and>
      ValueScalar_alternatives ! scalar_index v = t)"

text \<open>The seven shapes the specification lists for a parameter value.\<close>

definition spec_shapes :: "Alternative list" where
  "spec_shapes =
     [std_string, bool_t, int32_t, int64_t, double_t, SecurityTuple_t, ValueVector_t]"

definition has_spec_shape :: "('src, 'side, 'q) Value \<Rightarrow> bool" where
  "has_spec_shape v = list_ex (\<lambda>t. holds_alternative t v) spec_shapes"

text \<open>
  \<open>struct ParamDef { std::string name; Value default_value; bool required = false;
  double min_value = 0; double max_value = 0; int precision = 0; }\<close>
\<close>

record ('src, 'side, 'q) ParamDef =
  name :: string
  default_value :: "('src, 'side, 'q) Value"
  required :: bool
  min_value :: 'q
  max_value :: 'q
  precision :: "32 word"

type_synonym ('src, 'side, 'q) ParamDefs = "('src, 'side, 'q) ParamDef list"

type_synonym ('src, 'side, 'q) ParamMap = "string \<rightharpoonup> ('src, 'side, 'q) Value"

subsection \<open>The strategy callbacks\<close>











subsection \<open>Instrument\<close>

text \<open>
  The private members of \<open>class Instrument\<close> with their default member initialisers:
  \<open>algo_ = nullptr\<close>, \<open>md_ = nullptr\<close>, the four quantities and \<open>id_\<close> zero.
  \<open>md_'\<close> points to the cached market-data snapshot; \<open>Some m\<close> is a pointer to the
  snapshot \<open>m\<close>. A member \<open>x_\<close> of the source is written \<open>x_'\<close>: a name cannot end
  with an underscore here.
\<close>

record ('src, 'sec, 'md, 'q) Instrument =
  algo_' :: "32 word option"
  sec_' :: 'sec
  md_' :: "'md option"
  src_' :: 'src
  active_orders_' :: "nat set"
  bought_qty_' :: 'q
  sold_qty_' :: 'q
  outstanding_buy_qty_' :: 'q
  outstanding_sell_qty_' :: 'q
  id_' :: "64 word"

text \<open>
  The constructor \<open>Instrument(Algo* algo, const Security& sec, DataSrc src) :
  algo_(algo), sec_(sec), src_(src) {}\<close>; every other member keeps its initialiser.
\<close>

definition Instrument_new ::
  "32 word option \<Rightarrow> 'sec \<Rightarrow> 'src \<Rightarrow> ('src, 'sec, 'md, 'q::zero) Instrument" where
  "Instrument_new a s d =
     \<lparr> algo_' = a, sec_' = s, md_' = None, src_' = d, active_orders_' = {},
       bought_qty_' = 0, sold_qty_' = 0, outstanding_buy_qty_' = 0,
       outstanding_sell_qty_' = 0, id_' = 0 \<rparr>"

datatype error = NullPointerDereference

text \<open>
  \<open>const MarketData& md() const { return *md_; }\<close>: the dereference has no check, so a
  null \<open>md_\<close> is the error branch.
\<close>

definition md :: "('src, 'sec, 'md, 'q) Instrument \<Rightarrow> error + 'md" where
  "md inst = (case md_' inst of None \<Rightarrow> Inl NullPointerDereference | Some m \<Rightarrow> Inr m)"

definition net_qty :: "('src, 'sec, 'md, 'q::minus) Instrument \<Rightarrow> 'q" where
  "net_qty inst = bought_qty_' inst - sold_qty_' inst"

definition total_qty :: "('src, 'sec, 'md, 'q::plus) Instrument \<Rightarrow> 'q" where
  "total_qty inst = bought_qty_' inst + sold_qty_' inst"

definition net_outstanding_qty :: "('src, 'sec, 'md, 'q::minus) Instrument \<Rightarrow> 'q" where
  "net_outstanding_qty inst = outstanding_buy_qty_' inst - outstanding_sell_qty_' inst"

definition total_outstanding_qty :: "('src, 'sec, 'md, 'q::plus) Instrument \<Rightarrow> 'q" where
  "total_outstanding_qty inst = outstanding_buy_qty_' inst + outstanding_sell_qty_' inst"

definition total_exposure :: "('src, 'sec, 'md, 'q::plus) Instrument \<Rightarrow> 'q" where
  "total_exposure inst = total_qty inst + total_outstanding_qty inst"

subsection \<open>The quantity type double\<close>

text \<open>
  The four stored quantities of an Instrument and the results of its accessors are C++
  \<open>double\<close>s: IEEE 754 binary64. A value is finite, an infinity or a NaN. A finite value
  is carried as the real number it denotes (the two zeros are one value: they compare
  equal; all NaNs are one value). Not every real is a finite double: the ones that are
  are those that rounding leaves as they are (\<open>finite_double\<close> below).
\<close>

datatype double = Fin real | PInf | NInf | NaN

text \<open>
  Rounding to the nearest integer, ties to the even one.
\<close>

definition rne :: "real \<Rightarrow> int" where
  "rne t =
     (if t - of_int \<lfloor>t\<rfloor> < 1 / 2 then \<lfloor>t\<rfloor>
      else if 1 / 2 < t - of_int \<lfloor>t\<rfloor> then \<lfloor>t\<rfloor> + 1
      else if even \<lfloor>t\<rfloor> then \<lfloor>t\<rfloor> else \<lfloor>t\<rfloor> + 1)"

text \<open>
  Binary64 has 53 significant bits and normal exponents from \<open>-1022\<close> to \<open>1023\<close>. The
  exponent of a real is that of its binade, and \<open>-1022\<close> in the subnormal range; the
  distance between neighbouring doubles there is \<open>ulp\<close>. The default rounding of a real
  result is to the nearest multiple of \<open>ulp\<close>, ties to even; what rounds to \<open>2 ^ 1024\<close>
  or beyond is an infinity.
\<close>

definition expo :: "real \<Rightarrow> int" where
  "expo x = max \<lfloor>log 2 \<bar>x\<bar>\<rfloor> (- 1022)"

definition ulp :: "real \<Rightarrow> real" where
  "ulp x = 2 powr (of_int (expo x) - 52)"

definition round_nearest_even :: "real \<Rightarrow> real" where
  "round_nearest_even x = of_int (rne (x / ulp x)) * ulp x"

definition to_double :: "real \<Rightarrow> double" where
  "to_double x =
     (if 2 ^ 1024 \<le> round_nearest_even x then PInf
      else if round_nearest_even x \<le> - (2 ^ 1024) then NInf
      else Fin (round_nearest_even x))"

text \<open>
  The operations that the accessors and a bound on their results use: \<open>0\<close>, unary and
  binary \<open>-\<close>, \<open>+\<close>, \<open>std::fabs\<close> and \<open><=\<close>, \<open><\<close>. A sum of two finite values is
  the rounded real sum; \<open>inf + (-inf)\<close> and every operation on a NaN give NaN;
  \<open>a - b\<close> is \<open>a + (-b)\<close>; a comparison with a NaN is false.
\<close>

instantiation double :: "{zero, plus, uminus, minus, abs, ord}"
begin

definition zero_double :: double where
  "zero_double = Fin 0"

fun uminus_double :: "double \<Rightarrow> double" where
  "uminus_double (Fin x) = Fin (- x)"
| "uminus_double PInf = NInf"
| "uminus_double NInf = PInf"
| "uminus_double NaN = NaN"

fun plus_double :: "double \<Rightarrow> double \<Rightarrow> double" where
  "plus_double NaN _ = NaN"
| "plus_double _ NaN = NaN"
| "plus_double PInf NInf = NaN"
| "plus_double NInf PInf = NaN"
| "plus_double PInf _ = PInf"
| "plus_double _ PInf = PInf"
| "plus_double NInf _ = NInf"
| "plus_double _ NInf = NInf"
| "plus_double (Fin x) (Fin y) = to_double (x + y)"

definition minus_double :: "double \<Rightarrow> double \<Rightarrow> double" where
  "minus_double a b = a + (- b)"

fun abs_double :: "double \<Rightarrow> double" where
  "abs_double (Fin x) = Fin \<bar>x\<bar>"
| "abs_double PInf = PInf"
| "abs_double NInf = PInf"
| "abs_double NaN = NaN"

fun less_eq_double :: "double \<Rightarrow> double \<Rightarrow> bool" where
  "less_eq_double NaN _ = False"
| "less_eq_double _ NaN = False"
| "less_eq_double NInf _ = True"
| "less_eq_double _ PInf = True"
| "less_eq_double PInf _ = False"
| "less_eq_double _ NInf = False"
| "less_eq_double (Fin x) (Fin y) = (x \<le> y)"

fun less_double :: "double \<Rightarrow> double \<Rightarrow> bool" where
  "less_double NaN _ = False"
| "less_double _ NaN = False"
| "less_double PInf _ = False"
| "less_double _ NInf = False"
| "less_double NInf _ = True"
| "less_double _ PInf = True"
| "less_double (Fin x) (Fin y) = (x < y)"

instance ..

end

text \<open>
  A finite double: a finite value that binary64 represents.
\<close>

definition finite_double :: "double \<Rightarrow> bool" where
  "finite_double q = (case q of Fin x \<Rightarrow> to_double x = Fin x | _ \<Rightarrow> False)"

subsection \<open>The subscription reference counts\<close>

text \<open>
  \<open>AlgoManager::md_refs_\<close> is a \<open>tbb::concurrent_unordered_map\<close> from the pair
  \<open>(DataSrc::IdType, Security::IdType)\<close> to \<open>tbb::atomic<uint32_t>\<close>. Its
  \<open>operator[]\<close> returns the stored counter and, for a key that has no entry, first inserts
  a value-initialised (zero) one.
\<close>

type_synonym ('src, 'sec) md_refs = "('src \<times> 'sec) \<rightharpoonup> 32 word"

definition md_refs_at ::
  "('src, 'sec) md_refs \<Rightarrow> 'src \<times> 'sec \<Rightarrow> 32 word \<times> ('src, 'sec) md_refs" where
  "md_refs_at m k = (case m k of None \<Rightarrow> (0, m(k \<mapsto> 0)) | Some v \<Rightarrow> (v, m))"

text \<open>The count recorded for a pair; a pair without an entry counts as zero.\<close>

definition ref_count :: "('src, 'sec) md_refs \<Rightarrow> 'src \<times> 'sec \<Rightarrow> 32 word" where
  "ref_count m k = (case m k of None \<Rightarrow> 0 | Some v \<Rightarrow> v)"

text \<open>
  \<open>bool IsSubscribed(DataSrc::IdType src, Security::IdType id) {
  return md_refs_[std::make_pair(src, id)] > 0; }\<close>. The comparison is unsigned. The
  result is paired with the table after the call; \<open>d\<close> is the source's \<open>src\<close> and
  \<open>i\<close> its \<open>id\<close>.
\<close>

definition IsSubscribed ::
  "('src, 'sec) md_refs \<Rightarrow> 'src \<Rightarrow> 'sec \<Rightarrow> bool \<times> ('src, 'sec) md_refs" where
  "IsSubscribed m d i =
     (case md_refs_at m (d, i) of (v, m') \<Rightarrow> (0 < v, m'))"

subsection \<open>Algo and AlgoManager\<close>































section \<open>Properties\<close>

subsection \<open>Parameter values\<close>

text \<open>
  C6, as stated: every parameter value has one of the seven listed shapes. It fails for a
  value that holds the \<open>const char*\<close> alternative, which the variant declares beside
  \<open>std::string\<close>.
\<close>

theorem Value_seven_shapes_counterexample:
  "\<not> has_spec_shape (ValueCString (Some ''TWAP'') :: (nat, nat, int) Value)"
  by (simp add: has_spec_shape_def spec_shapes_def holds_alternative_def
      Value_alternatives_def)

text \<open>
  C6, amended: \<open>ParamDef::Value\<close> is a closed sum over exactly eight alternatives, the
  seven listed ones and \<open>const char*\<close>: every value holds exactly the alternative at its
  index, which is below eight. The scalar type has the same alternatives without the
  list, and every scalar holds exactly the alternative at its index.
\<close>

theorem Value_eight_alternatives:
  "index v < length Value_alternatives \<and> length Value_alternatives = 8 \<and>
   distinct Value_alternatives \<and>
   holds_alternative t v = (t = Value_alternatives ! index v) \<and>
   set Value_alternatives = insert const_char_ptr (set spec_shapes) \<and>
   ValueScalar_alternatives = butlast Value_alternatives \<and>
   scalar_index x < length ValueScalar_alternatives \<and>
   scalar_holds_alternative t x = (t = ValueScalar_alternatives ! scalar_index x)"
proof -
  have v: "index v < 8" by (cases v) simp_all
  have x: "scalar_index x < 7" by (cases x) simp_all
  show ?thesis using v x
    by (auto simp: Value_alternatives_def ValueScalar_alternatives_def spec_shapes_def
        holds_alternative_def scalar_holds_alternative_def)
qed

subsection \<open>The strategy callbacks\<close>






subsection \<open>Instrument\<close>

text \<open>
  C4: each derived accessor is the stated function of the four stored quantities, with
  the code's own \<open>+\<close> and \<open>-\<close>, whatever arithmetic the quantity type has.
\<close>

theorem derived_quantities:
  fixes inst :: "('src, 'sec, 'md, 'q::{plus,minus}) Instrument"
  shows "net_qty inst = bought_qty_' inst - sold_qty_' inst \<and>
   total_qty inst = bought_qty_' inst + sold_qty_' inst \<and>
   net_outstanding_qty inst = outstanding_buy_qty_' inst - outstanding_sell_qty_' inst \<and>
   total_outstanding_qty inst = outstanding_buy_qty_' inst + outstanding_sell_qty_' inst \<and>
   total_exposure inst = total_qty inst + total_outstanding_qty inst"
  by (simp add: net_qty_def total_qty_def net_outstanding_qty_def total_outstanding_qty_def
      total_exposure_def)

subsection \<open>Rounding to double\<close>

lemma rne_bounds: "\<lfloor>t\<rfloor> \<le> rne t" "rne t \<le> \<lfloor>t\<rfloor> + 1"
  by (simp_all add: rne_def)

lemma rne_of_int: "rne (of_int k) = k"
  by (simp add: rne_def)

lemma rne_mono: "s \<le> t \<Longrightarrow> rne s \<le> rne t"
proof -
  assume st: "s \<le> t"
  then have fl: "\<lfloor>s\<rfloor> \<le> \<lfloor>t\<rfloor>" by (rule floor_mono)
  show ?thesis
  proof (cases "\<lfloor>s\<rfloor> = \<lfloor>t\<rfloor>")
    case True
    with st show ?thesis by (auto simp: rne_def)
  next
    case False
    with fl have "\<lfloor>s\<rfloor> + 1 \<le> \<lfloor>t\<rfloor>" by simp
    with rne_bounds(2) [of s] rne_bounds(1) [of t] show ?thesis by linarith
  qed
qed

lemma floor_minus_nonint:
  fixes t :: real
  assumes "t \<noteq> of_int \<lfloor>t\<rfloor>"
  shows "\<lfloor>- t\<rfloor> = - \<lfloor>t\<rfloor> - 1"
proof -
  have "of_int \<lfloor>t\<rfloor> \<le> t" by (rule of_int_floor_le)
  with assms have lt: "of_int \<lfloor>t\<rfloor> < t" by linarith
  have ub: "t < of_int \<lfloor>t\<rfloor> + 1" by linarith
  have c: "(of_int (- \<lfloor>t\<rfloor> - 1) :: real) = - of_int \<lfloor>t\<rfloor> - 1" by simp
  show ?thesis
  proof (rule floor_unique)
    show "of_int (- \<lfloor>t\<rfloor> - 1) \<le> - t" unfolding c using ub by linarith
    show "- t < of_int (- \<lfloor>t\<rfloor> - 1) + 1" unfolding c using lt by linarith
  qed
qed

lemma rne_minus: "rne (- t) = - rne t"
proof (cases "t = of_int \<lfloor>t\<rfloor>")
  case True
  then obtain k where k: "t = of_int k" ..
  have "rne (- of_int k) = - k" using rne_of_int [of "- k"] by simp
  with k show ?thesis by (simp add: rne_of_int)
next
  case False
  note fm = floor_minus_nonint [OF False]
  define f where "f = \<lfloor>t\<rfloor>"
  define r where "r = t - of_int f"
  have t: "t = of_int f + r" by (simp add: r_def)
  have rm: "- t - of_int (- f - 1) = 1 - r" by (simp add: r_def)
  have ev: "even (- f - 1) = odd f" by simp
  show ?thesis
    unfolding rne_def fm f_def [symmetric] rm
    unfolding r_def [symmetric] ev
    by (cases "r < 1 / 2"; cases "1 / 2 < r"; cases "even f") (auto)
qed

lemma ulp_pos: "0 < ulp x"
  by (simp add: ulp_def)

lemma ulp_minus: "ulp (- x) = ulp x"
  by (simp add: ulp_def expo_def)

lemma round_nearest_even_minus: "round_nearest_even (- x) = - round_nearest_even x"
  by (simp add: round_nearest_even_def ulp_minus rne_minus)

lemma round_nearest_even_0: "round_nearest_even 0 = 0"
  by (simp add: round_nearest_even_def rne_def)

lemma round_nearest_even_nonneg: "0 \<le> x \<Longrightarrow> 0 \<le> round_nearest_even x"
proof -
  assume "0 \<le> x"
  then have "0 \<le> x / ulp x" using ulp_pos [of x] by simp
  then have "0 \<le> \<lfloor>x / ulp x\<rfloor>" by simp
  with rne_bounds(1) [of "x / ulp x"] have "0 \<le> rne (x / ulp x)" by linarith
  then show ?thesis using ulp_pos [of x] by (simp add: round_nearest_even_def)
qed

lemma expo_mono: "0 < x \<Longrightarrow> x \<le> y \<Longrightarrow> expo x \<le> expo y"
proof -
  assume "0 < x" "x \<le> y"
  then have "log 2 \<bar>x\<bar> \<le> log 2 \<bar>y\<bar>" by simp
  then have "\<lfloor>log 2 \<bar>x\<bar>\<rfloor> \<le> \<lfloor>log 2 \<bar>y\<bar>\<rfloor>" by (rule floor_mono)
  then show ?thesis by (simp add: expo_def)
qed

lemma below_next_binade: "0 < x \<Longrightarrow> x < 2 powr (of_int (expo x) + 1)"
proof -
  assume x: "0 < x"
  have "log 2 x < of_int \<lfloor>log 2 x\<rfloor> + 1" by linarith
  also have "\<dots> \<le> of_int (expo x) + 1" using x by (simp add: expo_def)
  finally have "2 powr (log 2 x) < 2 powr (of_int (expo x) + 1)" by simp
  with x show ?thesis by simp
qed

lemma above_binade: "0 < y \<Longrightarrow> - 1022 < expo y \<Longrightarrow> 2 powr (of_int (expo y)) \<le> y"
proof -
  assume y: "0 < y" and e: "- 1022 < expo y"
  from e y have "expo y = \<lfloor>log 2 y\<rfloor>" by (simp add: expo_def max_def split: if_splits)
  then have "of_int (expo y) \<le> log 2 y" by simp
  then have "2 powr (of_int (expo y)) \<le> 2 powr (log 2 y)" by simp
  with y show ?thesis by simp
qed

lemma round_upper: "0 < x \<Longrightarrow> round_nearest_even x \<le> 2 powr (of_int (expo x) + 1)"
proof -
  assume x: "0 < x"
  have "(2::real) powr (53 + (of_int (expo x) - 52)) = 2 powr 53 * 2 powr (of_int (expo x) - 52)"
    by (rule powr_add)
  moreover have "53 + (real_of_int (expo x) - 52) = of_int (expo x) + 1" by simp
  ultimately have split: "2 powr (of_int (expo x) + 1) = 2 powr 53 * ulp x"
    by (simp only: ulp_def)
  have p53: "(2::real) powr 53 = of_int (2 ^ 53)" by simp
  have "x / ulp x \<le> 2 powr 53"
    using below_next_binade [OF x] ulp_pos [of x] unfolding split
    by (simp add: pos_divide_le_eq)
  then have "rne (x / ulp x) \<le> rne (of_int (2 ^ 53))" unfolding p53 by (rule rne_mono)
  then have "rne (x / ulp x) \<le> 2 ^ 53" by (simp only: rne_of_int)
  then have "real_of_int (rne (x / ulp x)) \<le> 2 powr 53" unfolding p53 by linarith
  then have "of_int (rne (x / ulp x)) * ulp x \<le> 2 powr 53 * ulp x"
    using ulp_pos [of x] by (simp only: mult_le_cancel_right_pos)
  then show ?thesis unfolding split round_nearest_even_def .
qed

lemma round_lower:
  "0 < y \<Longrightarrow> - 1022 < expo y \<Longrightarrow> 2 powr (of_int (expo y)) \<le> round_nearest_even y"
proof -
  assume y: "0 < y" and e: "- 1022 < expo y"
  have "(2::real) powr (52 + (of_int (expo y) - 52)) = 2 powr 52 * 2 powr (of_int (expo y) - 52)"
    by (rule powr_add)
  moreover have "52 + (real_of_int (expo y) - 52) = of_int (expo y)" by simp
  ultimately have split: "2 powr (of_int (expo y)) = 2 powr 52 * ulp y"
    by (simp only: ulp_def)
  have p52: "(2::real) powr 52 = of_int (2 ^ 52)" by simp
  have "2 powr 52 \<le> y / ulp y"
    using above_binade [OF y e] ulp_pos [of y] unfolding split
    by (simp add: pos_le_divide_eq)
  then have "rne (of_int (2 ^ 52)) \<le> rne (y / ulp y)" unfolding p52 by (rule rne_mono)
  then have "2 ^ 52 \<le> rne (y / ulp y)" by (simp only: rne_of_int)
  then have "2 powr 52 \<le> real_of_int (rne (y / ulp y))" unfolding p52 by linarith
  then have "2 powr 52 * ulp y \<le> of_int (rne (y / ulp y)) * ulp y"
    using ulp_pos [of y] by (simp only: mult_le_cancel_right_pos)
  then show ?thesis unfolding split round_nearest_even_def .
qed

lemma round_mono_pos:
  assumes "0 < x" and "x \<le> y"
  shows "round_nearest_even x \<le> round_nearest_even y"
proof (cases "expo x = expo y")
  case True
  then have u: "ulp x = ulp y" by (simp add: ulp_def)
  have "x / ulp y \<le> y / ulp y" using assms(2) ulp_pos [of y] by (simp add: divide_right_mono)
  then have "rne (x / ulp y) \<le> rne (y / ulp y)" by (rule rne_mono)
  then have "real_of_int (rne (x / ulp y)) \<le> real_of_int (rne (y / ulp y))" by simp
  then show ?thesis unfolding round_nearest_even_def u
    using ulp_pos [of y] by (simp only: mult_le_cancel_right_pos)
next
  case False
  have y: "0 < y" using assms by simp
  from False expo_mono [OF assms] have lt: "expo x < expo y" by simp
  have "- 1022 \<le> expo x" by (simp add: expo_def)
  with lt have e: "- 1022 < expo y" by simp
  from lt have "of_int (expo x) + 1 \<le> (of_int (expo y) :: real)" by linarith
  then have "(2::real) powr (of_int (expo x) + 1) \<le> 2 powr (of_int (expo y))" by simp
  with round_upper [OF assms(1)] round_lower [OF y e] show ?thesis by linarith
qed

lemma round_mono: "x \<le> y \<Longrightarrow> round_nearest_even x \<le> round_nearest_even y"
proof -
  assume xy: "x \<le> y"
  consider "0 < x" | "x \<le> 0" "0 \<le> y" | "y < 0" by linarith
  then show ?thesis
  proof cases
    case 1
    then show ?thesis using xy by (rule round_mono_pos)
  next
    case 2
    have "round_nearest_even (- x) \<ge> 0" using 2(1) by (intro round_nearest_even_nonneg) simp
    then have "round_nearest_even x \<le> 0" by (simp add: round_nearest_even_minus)
    with round_nearest_even_nonneg [OF 2(2)] show ?thesis by linarith
  next
    case 3
    then have "0 < - y" "- y \<le> - x" using xy by simp_all
    then have "round_nearest_even (- y) \<le> round_nearest_even (- x)" by (rule round_mono_pos)
    then show ?thesis by (simp add: round_nearest_even_minus)
  qed
qed

lemma to_double_not_NaN: "to_double x \<noteq> NaN"
  by (simp add: to_double_def)

lemma to_double_minus: "to_double (- x) = - to_double x"
  by (simp add: to_double_def round_nearest_even_minus)

lemma to_double_mono: "x \<le> y \<Longrightarrow> to_double x \<le> to_double y"
  using round_mono [of x y] by (simp add: to_double_def)

lemma to_double_0: "to_double 0 = Fin 0"
  by (simp add: to_double_def round_nearest_even_0)

lemma to_double_abs: "to_double \<bar>x\<bar> = \<bar>to_double x\<bar>"
proof (cases "0 \<le> x")
  case True
  then have "0 \<le> round_nearest_even x" by (rule round_nearest_even_nonneg)
  with True show ?thesis by (simp add: to_double_def)
next
  case False
  then have "0 \<le> round_nearest_even (- x)" by (intro round_nearest_even_nonneg) simp
  then have "round_nearest_even x \<le> 0" by (simp add: round_nearest_even_minus)
  with False show ?thesis by (simp add: to_double_def round_nearest_even_minus)
qed

lemma between_finite:
  assumes "Fin l \<le> q" and "q \<le> Fin u"
  obtains x where "q = Fin x" and "l \<le> x" and "x \<le> u"
  using assms by (cases q) simp_all

lemma sum_and_difference:
  assumes b: "finite_double (Fin b)" "0 \<le> b" and s: "finite_double (Fin s)" "0 \<le> s"
  obtains x where "Fin b - Fin s = Fin x" and "\<bar>Fin x\<bar> \<le> Fin b + Fin s" and
    "Fin 0 \<le> Fin b + Fin s"
proof -
  have fb: "to_double b = Fin b" and fs: "to_double s = Fin s"
    using b(1) s(1) by (simp_all add: finite_double_def)
  have d: "Fin b - Fin s = to_double (b - s)" by (simp add: minus_double_def)
  have "to_double (- s) \<le> to_double (b - s)" using b(2) by (intro to_double_mono) simp
  then have lo: "Fin (- s) \<le> Fin b - Fin s" by (simp add: d to_double_minus fs)
  have "to_double (b - s) \<le> to_double b" using s(2) by (intro to_double_mono) simp
  then have hi: "Fin b - Fin s \<le> Fin b" by (simp add: d fb)
  from lo hi obtain x where x: "Fin b - Fin s = Fin x" by (rule between_finite)
  have "to_double \<bar>b - s\<bar> \<le> to_double (b + s)" using b(2) s(2) by (intro to_double_mono) simp
  then have "\<bar>Fin x\<bar> \<le> Fin b + Fin s"
    unfolding to_double_abs d [symmetric] x by simp
  moreover have "to_double 0 \<le> to_double (b + s)" using b(2) s(2) by (intro to_double_mono) simp
  then have "Fin 0 \<le> Fin b + Fin s" by (simp add: to_double_0)
  ultimately show ?thesis using x that by blast
qed

lemma bound_of_parts:
  assumes x: "\<bar>Fin x\<bar> \<le> X" and y: "\<bar>Fin y\<bar> \<le> Y" and X: "Fin 0 \<le> X" and Y: "Fin 0 \<le> Y"
  shows "\<bar>Fin x + Fin y\<bar> \<le> X + Y"
proof -
  have nn: "\<bar>to_double (x + y)\<bar> \<noteq> NaN"
    using to_double_not_NaN [of "x + y"] by (cases "to_double (x + y)") simp_all
  show ?thesis
  proof (cases X)
    case (Fin X')
    show ?thesis
    proof (cases Y)
      case Y': (Fin Y')
      have "\<bar>x + y\<bar> \<le> X' + Y'" using x y Fin Y' by simp
      then have "to_double \<bar>x + y\<bar> \<le> to_double (X' + Y')" by (rule to_double_mono)
      then show ?thesis by (simp add: Fin Y' to_double_abs)
    next
      case PInf
      with Fin nn show ?thesis by (cases "\<bar>to_double (x + y)\<bar>") simp_all
    next
      case NInf
      with Y show ?thesis by simp
    next
      case NaN
      with Y show ?thesis by simp
    qed
  next
    case PInf
    have "X + Y = PInf" using PInf Y by (cases Y) simp_all
    with nn show ?thesis by (cases "\<bar>to_double (x + y)\<bar>") simp_all
  next
    case NInf
    with X show ?thesis by simp
  next
    case NaN
    with X show ?thesis by simp
  qed
qed

lemma round_int:
  assumes "\<bar>k\<bar> < 2 ^ 53"
  shows "round_nearest_even (of_int k) = of_int k"
proof (cases "k = 0")
  case True
  then show ?thesis by (simp add: round_nearest_even_0)
next
  case False
  define x :: real where "x = of_int k"
  have x1: "1 \<le> \<bar>x\<bar>" using False by (simp add: x_def)
  have x53: "\<bar>x\<bar> < 2 ^ 53"
  proof -
    have "real_of_int \<bar>k\<bar> < real_of_int (2 ^ 53)" using assms by (simp only: of_int_less_iff)
    then show ?thesis by (simp add: x_def)
  qed
  have l0: "0 \<le> log 2 \<bar>x\<bar>" using x1 by simp
  have "\<bar>x\<bar> < 2 powr 53" using x53 by simp
  moreover have "0 < \<bar>x\<bar>" using x1 by linarith
  ultimately have l53: "log 2 \<bar>x\<bar> < 53" by (subst log_less_iff) simp_all
  define e where "e = \<lfloor>log 2 \<bar>x\<bar>\<rfloor>"
  have e0: "0 \<le> e" using l0 by (simp add: e_def)
  have e52: "e \<le> 52" using l53 unfolding e_def by linarith
  have ex: "expo x = e" using e0 by (simp add: expo_def e_def)
  define n where "n = nat (52 - e)"
  have n: "real_of_int e - 52 = - real n" using e52 by (simp add: n_def)
  have u: "ulp x = 1 / 2 ^ n"
    unfolding ulp_def ex n by (simp add: powr_minus powr_realpow divide_simps)
  have "x / ulp x = of_int (k * 2 ^ n)" unfolding u by (simp add: x_def)
  then have "rne (x / ulp x) = k * 2 ^ n" by (simp only: rne_of_int)
  then have "round_nearest_even x = x"
    unfolding round_nearest_even_def u by (simp add: x_def)
  then show ?thesis by (simp only: x_def)
qed

lemma to_double_int: "\<bar>k\<bar> < 2 ^ 53 \<Longrightarrow> to_double (of_int k) = Fin (of_int k)"
proof -
  assume k: "\<bar>k\<bar> < 2 ^ 53"
  have "real_of_int \<bar>k\<bar> < real_of_int (2 ^ 53)" using k by (simp only: of_int_less_iff)
  then have "\<bar>real_of_int k\<bar> < 2 ^ 1024" by simp
  then show ?thesis
    by (simp add: to_double_def round_int [OF k] abs_less_iff)
qed

lemma finite_double_int: "\<bar>k\<bar> < 2 ^ 53 \<Longrightarrow> finite_double (Fin (of_int k))"
  by (simp add: finite_double_def to_double_int)

subsection \<open>Total exposure\<close>

text \<open>
  C5, as stated: when the four stored quantities are non-negative, the total exposure is
  at least the absolute value of net position plus net outstanding. It fails when
  \<open>bought_qty_\<close> and \<open>sold_qty_\<close> are both \<open>+inf\<close>, which is not negative: the net
  position is \<open>inf - inf\<close>, a NaN, and no comparison with a NaN holds.
\<close>

theorem total_exposure_infinite_counterexample:
  "(0::double) \<le> PInf \<and> (0::double) \<le> 0 \<and>
   \<not> \<bar>net_qty ((Instrument_new (Some 1) (7::nat) (3::nat) :: (nat, nat, nat, double) Instrument)
          \<lparr>bought_qty_' := PInf, sold_qty_' := PInf\<rparr>) +
       net_outstanding_qty ((Instrument_new (Some 1) (7::nat) (3::nat) :: (nat, nat, nat, double) Instrument)
          \<lparr>bought_qty_' := PInf, sold_qty_' := PInf\<rparr>)\<bar>
     \<le> total_exposure ((Instrument_new (Some 1) (7::nat) (3::nat) :: (nat, nat, nat, double) Instrument)
          \<lparr>bought_qty_' := PInf, sold_qty_' := PInf\<rparr>)"
  by (simp add: net_qty_def Instrument_new_def minus_double_def zero_double_def)

text \<open>
  C5, amended: when the four stored quantities are finite doubles and non-negative, the
  total exposure is at least the absolute value of net position plus net outstanding,
  in the arithmetic of \<open>double\<close>: with every sum and difference rounded, and also when a
  sum overflows to \<open>+inf\<close>.
\<close>

theorem total_exposure_bounds_net:
  fixes inst :: "('src, 'sec, 'md, double) Instrument"
  assumes "finite_double (bought_qty_' inst)" and "0 \<le> bought_qty_' inst"
    and "finite_double (sold_qty_' inst)" and "0 \<le> sold_qty_' inst"
    and "finite_double (outstanding_buy_qty_' inst)" and "0 \<le> outstanding_buy_qty_' inst"
    and "finite_double (outstanding_sell_qty_' inst)" and "0 \<le> outstanding_sell_qty_' inst"
  shows "\<bar>net_qty inst + net_outstanding_qty inst\<bar> \<le> total_exposure inst"
proof -
  have fin: "\<exists>x. q = Fin x \<and> 0 \<le> x" if "finite_double q" "0 \<le> q" for q
    using that by (cases q) (simp_all add: finite_double_def zero_double_def)
  from fin [OF assms(1,2)] obtain b where b: "bought_qty_' inst = Fin b" "0 \<le> b" by blast
  from fin [OF assms(3,4)] obtain s where s: "sold_qty_' inst = Fin s" "0 \<le> s" by blast
  from fin [OF assms(5,6)] obtain ob where ob: "outstanding_buy_qty_' inst = Fin ob" "0 \<le> ob"
    by blast
  from fin [OF assms(7,8)] obtain os where os: "outstanding_sell_qty_' inst = Fin os" "0 \<le> os"
    by blast
  have fb: "finite_double (Fin b)" and fs: "finite_double (Fin s)"
    and fob: "finite_double (Fin ob)" and fos: "finite_double (Fin os)"
    using assms(1,3,5,7) by (simp_all add: b s ob os)
  from sum_and_difference [OF fb b(2) fs s(2)] obtain x where
    x: "Fin b - Fin s = Fin x" "\<bar>Fin x\<bar> \<le> Fin b + Fin s" "Fin 0 \<le> Fin b + Fin s" by blast
  from sum_and_difference [OF fob ob(2) fos os(2)] obtain y where
    y: "Fin ob - Fin os = Fin y" "\<bar>Fin y\<bar> \<le> Fin ob + Fin os" "Fin 0 \<le> Fin ob + Fin os"
    by blast
  have "\<bar>Fin x + Fin y\<bar> \<le> (Fin b + Fin s) + (Fin ob + Fin os)"
    using x(2) y(2) x(3) y(3) by (rule bound_of_parts)
  then show ?thesis
    by (simp only: net_qty_def net_outstanding_qty_def total_exposure_def total_qty_def
        total_outstanding_qty_def b s ob os x(1) y(1))
qed

theorem total_exposure_bounds_net_witness:
  "finite_double (Fin 100) \<and> 0 \<le> Fin 100 \<and> finite_double (Fin 250) \<and> 0 \<le> Fin 250 \<and>
   finite_double (Fin 30) \<and> 0 \<le> Fin 30 \<and> finite_double (Fin 5) \<and> 0 \<le> Fin 5 \<and>
   \<bar>net_qty ((Instrument_new (Some 1) (7::nat) (3::nat) :: (nat, nat, nat, double) Instrument)
        \<lparr>bought_qty_' := Fin 100, sold_qty_' := Fin 250, outstanding_buy_qty_' := Fin 30,
         outstanding_sell_qty_' := Fin 5\<rparr>) +
    net_outstanding_qty ((Instrument_new (Some 1) (7::nat) (3::nat) :: (nat, nat, nat, double) Instrument)
        \<lparr>bought_qty_' := Fin 100, sold_qty_' := Fin 250, outstanding_buy_qty_' := Fin 30,
         outstanding_sell_qty_' := Fin 5\<rparr>)\<bar>
   \<le> total_exposure ((Instrument_new (Some 1) (7::nat) (3::nat) :: (nat, nat, nat, double) Instrument)
        \<lparr>bought_qty_' := Fin 100, sold_qty_' := Fin 250, outstanding_buy_qty_' := Fin 30,
         outstanding_sell_qty_' := Fin 5\<rparr>)"
proof -
  define inst :: "(nat, nat, nat, double) Instrument" where
    "inst = (Instrument_new (Some 1) 7 3)
        \<lparr>bought_qty_' := Fin 100, sold_qty_' := Fin 250, outstanding_buy_qty_' := Fin 30,
         outstanding_sell_qty_' := Fin 5\<rparr>"
  have f: "finite_double (Fin 100)" "finite_double (Fin 250)" "finite_double (Fin 30)"
    "finite_double (Fin 5)"
    using finite_double_int [of 100] finite_double_int [of 250] finite_double_int [of 30]
      finite_double_int [of 5] by simp_all
  have p: "0 \<le> Fin 100" "0 \<le> Fin 250" "0 \<le> Fin 30" "0 \<le> Fin 5"
    by (simp_all add: zero_double_def)
  have q: "bought_qty_' inst = Fin 100" "sold_qty_' inst = Fin 250"
    "outstanding_buy_qty_' inst = Fin 30" "outstanding_sell_qty_' inst = Fin 5"
    by (simp_all add: inst_def)
  have "\<bar>net_qty inst + net_outstanding_qty inst\<bar> \<le> total_exposure inst"
    by (rule total_exposure_bounds_net) (simp_all only: q f p)
  with f p show ?thesis unfolding inst_def by blast
qed

subsection \<open>Market data of an Instrument\<close>

text \<open>
  C10: \<open>md()\<close> of a freshly constructed Instrument dereferences the null \<open>md_\<close>;
  \<open>md()\<close> ends in that error exactly when \<open>md_\<close> is null, and once a snapshot is
  cached it returns the snapshot.
\<close>

theorem md_needs_cached_snapshot:
  fixes inst :: "('src, 'sec, 'md, 'q::zero) Instrument"
  shows "md (Instrument_new a s d :: ('src, 'sec, 'md, 'q) Instrument) =
     Inl NullPointerDereference \<and>
   (md inst = Inl NullPointerDereference) = (md_' inst = None) \<and>
   (md_' inst = Some m \<longrightarrow> md inst = Inr m)"
  by (simp add: md_def Instrument_new_def split: option.split)

theorem md_needs_cached_snapshot_witness:
  "md_' ((Instrument_new (Some 1) (7::nat) (3::nat) :: (nat, nat, nat, int) Instrument)
      \<lparr>md_' := Some 42\<rparr>) = Some 42 \<and>
   md ((Instrument_new (Some 1) (7::nat) (3::nat) :: (nat, nat, nat, int) Instrument)
      \<lparr>md_' := Some 42\<rparr>) = Inr 42 \<and>
   md (Instrument_new (Some 1) (7::nat) (3::nat) :: (nat, nat, nat, int) Instrument) =
     Inl NullPointerDereference"
  using md_needs_cached_snapshot
    [of "Some 1" "7::nat" "3::nat"
        "(Instrument_new (Some 1) (7::nat) (3::nat) :: (nat, nat, nat, int) Instrument)
           \<lparr>md_' := Some 42\<rparr>" 42]
  by (simp add: Instrument_new_def)

subsection \<open>IsSubscribed\<close>

text \<open>
  C3: for every data source and security, \<open>IsSubscribed\<close> returns true exactly when the
  count recorded for the pair is greater than zero, a pair without an entry counting as
  zero.
\<close>

theorem IsSubscribed_iff_positive:
  "fst (IsSubscribed m d i) = (0 < ref_count m (d, i))"
  by (simp add: IsSubscribed_def md_refs_at_def ref_count_def split: option.split)

text \<open>
  C9: \<open>IsSubscribed\<close> leaves the count of every pair as it was; the table itself is the
  old one when the queried pair had an entry, and the old one with a zero entry for the
  queried pair when it had none.
\<close>

theorem IsSubscribed_preserves_counts:
  "ref_count (snd (IsSubscribed m d i)) k = ref_count m k \<and>
   snd (IsSubscribed m d i) = (if m (d, i) = None then m((d, i) \<mapsto> 0) else m)"
  by (auto simp: IsSubscribed_def md_refs_at_def ref_count_def split: option.split)

subsection \<open>Reference counts under Subscribe and Stop\<close>





































end
